theory Spec2Isabelle
  imports Complex_Main
begin

section \<open>lebar: data model\<close>

text \<open>
  The embedding follows the last revision of \<^verbatim>\<open>lebar.go\<close>. Go strings and byte slices are
  \<^typ>\<open>string\<close> (lists of bytes, UTF-8 encoded). A Go slice that may be \<^verbatim>\<open>nil\<close> where the
  code tests for it is an \<^typ>\<open>'a list option\<close>. Record fields keep the Go names; a field
  name that several structs share carries a prefix for its struct. A Go \<^verbatim>\<open>int\<close> is an
  \<^typ>\<open>int\<close>: no claim depends on its width.
\<close>

record SymbolList =
  SL_Name :: string
  Symbols :: "string list option"

record MouseEvent =
  ME_Interpreter :: string
  ME_Script :: string
  ME_Command :: string

datatype iface = INil | IInt int | IString string

record Output =
  O_Name :: string
  FullText :: string
  ShortText :: string
  Color :: string
  Background :: string
  Border :: string
  BorderTop :: int
  BorderRight :: int
  BorderBottom :: int
  BorderLeft :: int
  MinWidth :: iface
  Align :: string
  Urgent :: bool
  O_Separator :: bool
  SeparatorBlockWidth :: int
  Markup :: string

record Block =
  B_Name :: string
  Interval :: int
  Interpreter :: string
  Script :: string
  Command :: string
  B_Output :: Output
  MouseEvents :: "(string \<times> MouseEvent) list"

record Config =
  StopSignal :: int
  ContSignal :: int
  Separator :: string
  SymbolLists :: "SymbolList list"
  Blocks :: "Block list"
  ClickEvents :: bool

record I3barClickEvent =
  EV_Name :: string
  Instance :: string
  X :: int
  Y :: int
  Button :: int
  Event :: int
  RelativeX :: int
  RelativeY :: int
  Width :: int
  Height :: int
  Scale :: real

text \<open>Every error return of the program, and the one run-time panic it can raise.\<close>

datatype error =
    InterpreterNotSpecified
  | InterpreterFormatInvalid
  | InterpreterNotFound string
  | CommandNotSpecified
  | CommandFormatInvalid
  | ExecutionFailed string
  | NameSpecified
  | TemplateParseFailed string string
  | TemplateExecuteFailed string string
  | IndexOutOfRange int nat
  | ClickEventParseFailed

text \<open>The dynamically typed arguments a template passes to \<^verbatim>\<open>Symbol\<close>.\<close>

datatype arg = AString string | AStrings "string list" | AFloat real | AInt int | AOther string

record tmpl_data =
  Text :: string
  Cfg :: Config

datatype render_result = ParseError string | ExecuteError string | Rendered string

subsection \<open>Library and operating-system functions\<close>

text \<open>
  Functions of the Go standard library, of the template and JSON packages and of the
  operating system are parameters of the model, collected in one record. A float64 is
  the real number it stands for (the infinities and NaN, which \<^verbatim>\<open>strconv.ParseFloat\<close> also
  returns, are left out), and \<open>rnd\<close> is the rounding of a float64 operation: an arithmetic
  operation on float64 values returns \<open>rnd\<close> of the exact result. \<open>Exec\<close> is
  \<^verbatim>\<open>exec.CommandContext(ctx, argv...).Output()\<close>
  under the ten-second deadline: it gets the number of earlier calls, the argument vector
  and the environment, and returns the captured standard output or the failure (non-zero
  exit, spawn failure, deadline). \<open>Render\<close> is \<^verbatim>\<open>template.New(field).Funcs(...).Parse(t)\<close>
  followed by \<^verbatim>\<open>Execute\<close>; it receives the \<^verbatim>\<open>Symbol\<close> closure, the field name, the
  template text and the data. \<open>Exec\<close>, \<open>LookPath\<close> and \<open>Render\<close> depend on the outside world
  (file system, clock, other processes); their first argument, the number of commands run
  so far, stands for the moment of the call. Runes are code points.
\<close>

record golib =
  rnd :: "real \<Rightarrow> real"
  ParseFloat :: "string \<Rightarrow> real option"
  Sprintv :: "arg \<Rightarrow> string"
  Itoa :: "int \<Rightarrow> string"
  TrimSpace :: "string \<Rightarrow> string"
  Fields :: "string \<Rightarrow> string list"
  IsSpace :: "nat \<Rightarrow> bool"
  TrimLeftFunc :: "(nat \<Rightarrow> bool) \<Rightarrow> string \<Rightarrow> string"
  TrimRightFunc :: "(nat \<Rightarrow> bool) \<Rightarrow> string \<Rightarrow> string"
  Unmarshal :: "string \<Rightarrow> I3barClickEvent option"
  LookPath :: "nat \<Rightarrow> (string \<times> string) list \<Rightarrow> string \<Rightarrow> bool"
  Exec :: "nat \<Rightarrow> string list \<Rightarrow> (string \<times> string) list \<Rightarrow> string + string"
  Render :: "nat \<Rightarrow> (arg list \<Rightarrow> error + string) \<Rightarrow> string \<Rightarrow> string \<Rightarrow> tmpl_data \<Rightarrow> render_result"

section \<open>The symbol resolver\<close>

definition defaultSymbols :: "string list" where
  "defaultSymbols =
     [[CHR 0xF0, CHR 0x9F, CHR 0x9F, CHR 0xA6], [CHR 0xF0, CHR 0x9F, CHR 0x9F, CHR 0xA9],
      [CHR 0xF0, CHR 0x9F, CHR 0x9F, CHR 0xA8], [CHR 0xF0, CHR 0x9F, CHR 0x9F, CHR 0xAB],
      [CHR 0xF0, CHR 0x9F, CHR 0x9F, CHR 0xA5]]"

definition defaultOver100Symbols :: "string list" where
  "defaultOver100Symbols =
     [[CHR 0xE2, CHR 0x9A, CHR 0xA0, CHR 0xEF, CHR 0xB8, CHR 0x8F],
      [CHR 0xF0, CHR 0x9F, CHR 0x92, CHR 0xA5], [CHR 0xF0, CHR 0x9F, CHR 0x86, CHR 0x98]]"

definition findSymbolList :: "Config \<Rightarrow> string \<Rightarrow> string list option" where
  "findSymbolList config name =
     (case find (\<lambda>l. SL_Name l = name) (SymbolLists config) of
        None \<Rightarrow> None
      | Some l \<Rightarrow> Symbols l)"

text \<open>\<^verbatim>\<open>fmt.Sprintf("%v", a)\<close>: a string is printed as it is.\<close>

definition fmtV :: "golib \<Rightarrow> arg \<Rightarrow> string" where
  "fmtV lib a = (case a of AString s \<Rightarrow> s | _ \<Rightarrow> Sprintv lib a)"

definition TrimSuffix :: "string \<Rightarrow> string \<Rightarrow> string" where
  "TrimSuffix s suffix =
     (if length suffix \<le> length s \<and> drop (length s - length suffix) s = suffix
      then take (length s - length suffix) s else s)"

text \<open>float64 division, multiplication and conversion from an integer.\<close>

definition fdiv :: "golib \<Rightarrow> real \<Rightarrow> real \<Rightarrow> real" where
  "fdiv lib x y = rnd lib (x / y)"

definition fmul :: "golib \<Rightarrow> real \<Rightarrow> real \<Rightarrow> real" where
  "fmul lib x y = rnd lib (x * y)"

definition float64 :: "golib \<Rightarrow> int \<Rightarrow> real" where
  "float64 lib n = rnd lib (of_int n)"

text \<open>\<^verbatim>\<open>int(x)\<close> on a float64 discards the fraction (truncation towards zero).\<close>

definition go_int :: "real \<Rightarrow> int" where
  "go_int x = (if 0 \<le> x then \<lfloor>x\<rfloor> else \<lceil>x\<rceil>)"

text \<open>Indexing a slice panics outside \<open>0 \<le> i < len\<close>.\<close>

definition index :: "string list \<Rightarrow> int \<Rightarrow> error + string" where
  "index xs i =
     (if 0 \<le> i \<and> i < int (length xs) then Inr (xs ! nat i)
      else Inl (IndexOutOfRange i (length xs)))"

fun secondArg :: "Config \<Rightarrow> arg \<Rightarrow> string list \<Rightarrow> string list" where
  "secondArg config (AStrings l) symbolList = (if length l > 0 then l else symbolList)"
| "secondArg config (AString s) symbolList =
     (case findSymbolList config s of Some l \<Rightarrow> l | None \<Rightarrow> symbolList)"
| "secondArg config _ symbolList = symbolList"

fun thirdArg :: "golib \<Rightarrow> Config \<Rightarrow> arg \<Rightarrow> string list \<times> real \<Rightarrow> string list \<times> real" where
  "thirdArg lib config (AStrings l) (over, scale) = (if length l > 0 then (l, scale) else (over, scale))"
| "thirdArg lib config (AString s) (over, scale) =
     (case findSymbolList config s of
        Some l \<Rightarrow> (l, scale)
      | None \<Rightarrow>
          (case ParseFloat lib s of
             Some scaleArg \<Rightarrow> if scaleArg > 0 then (over, scaleArg) else (over, scale)
           | None \<Rightarrow> (over, scale)))"
| "thirdArg lib config (AFloat a) (over, scale) = (if a > 0 then (over, a) else (over, scale))"
| "thirdArg lib config _ (over, scale) = (over, scale)"

fun fourthArg :: "arg \<Rightarrow> real \<Rightarrow> real" where
  "fourthArg (AFloat scaleArg) scale = (if scaleArg > 0 then scaleArg else scale)"
| "fourthArg _ scale = scale"

text \<open>The two index computations of the last step, named for reference.\<close>

definition symbolIndex :: "golib \<Rightarrow> nat \<Rightarrow> real \<Rightarrow> int" where
  "symbolIndex lib n scaledNumber =
     go_int (fmul lib (fdiv lib scaledNumber 100) (float64 lib (int n - 1)))"

definition over100Index :: "golib \<Rightarrow> nat \<Rightarrow> real \<Rightarrow> int" where
  "over100Index lib n scaledNumber =
     go_int (min (float64 lib (int n - 1))
                 (fmul lib (fdiv lib scaledNumber 100) (float64 lib (int n - 1))))"

definition Symbol :: "golib \<Rightarrow> Config \<Rightarrow> arg list \<Rightarrow> error + string" where
  "Symbol lib config args =
     (if length args < 1 then Inr ''''
      else
        let strVal = fmtV lib (args ! 0);
            strVal = TrimSpace lib (TrimSuffix strVal ''%'')
        in case ParseFloat lib strVal of
             None \<Rightarrow> Inr ''?''
           | Some number \<Rightarrow>
               let symbolList = defaultSymbols;
                   over100SymbolList = defaultOver100Symbols;
                   scale = 1;
                   symbolList = (if length args > 1 then secondArg config (args ! 1) symbolList
                                 else symbolList);
                   (over100SymbolList, scale) =
                      (if length args > 2
                       then thirdArg lib config (args ! 2) (over100SymbolList, scale)
                       else (over100SymbolList, scale));
                   scale = (if length args > 3 then fourthArg (args ! 3) scale else scale);
                   symbolList = (if length symbolList = 0 then defaultSymbols else symbolList);
                   over100SymbolList = (if length over100SymbolList = 0 then defaultOver100Symbols
                                        else over100SymbolList);
                   scaledNumber = fdiv lib number scale
               in if scaledNumber \<le> 100
                  then index symbolList (symbolIndex lib (length symbolList) scaledNumber)
                  else index over100SymbolList
                         (over100Index lib (length over100SymbolList) scaledNumber))"

section \<open>Process state\<close>

record header =
  version :: int
  stop_signal :: int
  cont_signal :: int
  click_events :: bool

text \<open>
  One value per write to standard output: the marshalled header followed by a newline,
  a string followed by a newline (\<^verbatim>\<open>Println\<close>), a bare string, a marshalled snapshot.
\<close>

datatype stdout_write = WHeader header | WLine string | WString string | WJson "Output list"

datatype log_entry =
    LogExecutingBlock string
  | LogTickError error
  | LogStarting
  | LogFinished
  | LogInitialLine string
  | LogRawInput string
  | LogSkipEmpty
  | LogSkipComma
  | LogProcessedRaw string
  | LogUnmarshalError
  | LogProblematicJSON string
  | LogParseError error
  | LogNoBlock string
  | LogMatchedBlock Block
  | LogNoHandler string string
  | LogScript string
  | LogNoScript string
  | LogInterpreter string
  | LogExecutingHandler string
  | LogHandlerDetails MouseEvent
  | LogHandlerError string error
  | LogHandlerOutput string string
  | LogReadError

text \<open>
  The state a unit of execution acts on: the process environment, the commands run so
  far (argument vector and the environment the child inherited), the calls to the logger,
  and the writes to standard output and standard error.
\<close>

record state =
  env :: "(string \<times> string) list"
  calls :: "(string list \<times> (string \<times> string) list) list"
  logged :: "log_entry list"
  stdout :: "stdout_write list"
  stderr :: "error list"

definition logs :: "state \<Rightarrow> log_entry list \<Rightarrow> state" where
  "logs st es = st\<lparr>logged := logged st @ es\<rparr>"

definition initial :: "(string \<times> string) list \<Rightarrow> state" where
  "initial e = \<lparr>env = e, calls = [], logged = [], stdout = [], stderr = []\<rparr>"

section \<open>The process runner\<close>

text \<open>\<^verbatim>\<open>cmd.Output()\<close> of the command built from an argument vector.\<close>

definition cmdOutput :: "golib \<Rightarrow> string list \<Rightarrow> state \<Rightarrow> (error + string) \<times> state" where
  "cmdOutput lib argv st =
     ((case Exec lib (length (calls st)) argv (env st) of
         Inl m \<Rightarrow> Inl (ExecutionFailed m)
       | Inr out \<Rightarrow> Inr out),
      st\<lparr>calls := calls st @ [(argv, env st)]\<rparr>)"

definition executeScript :: "golib \<Rightarrow> string \<Rightarrow> string \<Rightarrow> state \<Rightarrow> (error + string) \<times> state" where
  "executeScript lib interpreter script st =
     (if interpreter = '''' then (Inl InterpreterNotSpecified, st)
      else
        let parts = Fields lib interpreter in
        if length parts = 0 then (Inl InterpreterFormatInvalid, st)
        else if \<not> LookPath lib (length (calls st)) (env st) (hd parts)
        then (Inl (InterpreterNotFound interpreter), st)
        else
          (case cmdOutput lib (hd parts # (tl parts @ [script])) st of
             (Inl err, st') \<Rightarrow> (Inl err, st')
           | (Inr out, st') \<Rightarrow> (Inr (TrimSpace lib out), st')))"

definition executeCommand :: "golib \<Rightarrow> string \<Rightarrow> state \<Rightarrow> (error + string) \<times> state" where
  "executeCommand lib command st =
     (if command = '''' then (Inl CommandNotSpecified, st)
      else
        let parts = Fields lib command in
        if length parts = 0 then (Inl CommandFormatInvalid, st)
        else
          (case cmdOutput lib (hd parts # tl parts) st of
             (Inl err, st') \<Rightarrow> (Inl err, st')
           | (Inr out, st') \<Rightarrow> (Inr (TrimSpace lib out), st')))"

section \<open>The format engine\<close>

text \<open>
  The string-typed, settable fields of \<^verbatim>\<open>Output\<close> in declaration order, as the reflection
  loop of \<^verbatim>\<open>executeBlock\<close> visits them: name, reader and writer.
\<close>

definition stringFields :: "(string \<times> (Output \<Rightarrow> string) \<times> (string \<Rightarrow> Output \<Rightarrow> Output)) list" where
  "stringFields =
     [(''Name'', O_Name, \<lambda>v out. out\<lparr>O_Name := v\<rparr>),
      (''FullText'', FullText, \<lambda>v out. out\<lparr>FullText := v\<rparr>),
      (''ShortText'', ShortText, \<lambda>v out. out\<lparr>ShortText := v\<rparr>),
      (''Color'', Color, \<lambda>v out. out\<lparr>Color := v\<rparr>),
      (''Background'', Background, \<lambda>v out. out\<lparr>Background := v\<rparr>),
      (''Border'', Border, \<lambda>v out. out\<lparr>Border := v\<rparr>),
      (''Align'', Align, \<lambda>v out. out\<lparr>Align := v\<rparr>),
      (''Markup'', Markup, \<lambda>v out. out\<lparr>Markup := v\<rparr>)]"

fun applyTemplates ::
  "golib \<Rightarrow> Config \<Rightarrow> nat \<Rightarrow> tmpl_data \<Rightarrow>
   (string \<times> (Output \<Rightarrow> string) \<times> (string \<Rightarrow> Output \<Rightarrow> Output)) list \<Rightarrow> Output \<Rightarrow> error + Output" where
  "applyTemplates lib config t data [] output = Inr output"
| "applyTemplates lib config t data ((field, getf, setf) # fs) output =
     (let fieldTemplate = getf output in
      if fieldTemplate \<noteq> ''''
      then (case Render lib t (Symbol lib config) field fieldTemplate data of
              ParseError m \<Rightarrow> Inl (TemplateParseFailed field m)
            | ExecuteError m \<Rightarrow> Inl (TemplateExecuteFailed field m)
            | Rendered s \<Rightarrow> applyTemplates lib config t data fs (setf s output))
      else applyTemplates lib config t data fs output)"

definition executeBlock :: "golib \<Rightarrow> Block \<Rightarrow> Config \<Rightarrow> state \<Rightarrow> (error + Output) \<times> state" where
  "executeBlock lib block config st =
     (let st = logs st [LogExecutingBlock (B_Name block)];
          (r, st) = (if Command block \<noteq> '''' then executeCommand lib (Command block) st
                     else executeScript lib (Interpreter block) (Script block) st)
      in case r of
           Inl err \<Rightarrow> (Inl err, st)
         | Inr outputText \<Rightarrow>
             let text = TrimSpace lib outputText;
                 output = B_Output block
             in if O_Name output \<noteq> '''' then (Inl NameSpecified, st)
                else (applyTemplates lib config (length (calls st)) \<lparr>Text = text, Cfg = config\<rparr>
                        stringFields (output\<lparr>O_Name := B_Name block\<rparr>), st))"

section \<open>The block scheduler and the protocol writer\<close>

fun runBlocks_from ::
  "golib \<Rightarrow> Config \<Rightarrow> Block list \<Rightarrow> Output list \<Rightarrow> state \<Rightarrow> (error + Output list) \<times> state" where
  "runBlocks_from lib config [] outputs st = (Inr outputs, st)"
| "runBlocks_from lib config (block # rest) outputs st =
     (case executeBlock lib block config st of
        (Inl err, st') \<Rightarrow> (Inl err, st')
      | (Inr output, st') \<Rightarrow> runBlocks_from lib config rest (outputs @ [output]) st')"

definition runBlocks :: "golib \<Rightarrow> Config \<Rightarrow> state \<Rightarrow> (error + Output list) \<times> state" where
  "runBlocks lib config st = runBlocks_from lib config (Blocks config) [] st"

text \<open>The body of the tick loop of \<^verbatim>\<open>main\<close>, on the loop variable \<^verbatim>\<open>first\<close> and the state.\<close>

definition tick :: "golib \<Rightarrow> Config \<Rightarrow> bool \<times> state \<Rightarrow> bool \<times> state" where
  "tick lib config fs =
     (let (first, st) = fs in
      case runBlocks lib config st of
        (Inl err, st') \<Rightarrow> (first, logs st' [LogTickError err])
      | (Inr outputs, st') \<Rightarrow>
          (False, st'\<lparr>stdout := stdout st' @ (if \<not> first then [WString '',''] else [])
                                            @ [WJson outputs]\<rparr>))"

text \<open>
  What a receive from \<^verbatim>\<open>ticker.C\<close> yields. A \<^verbatim>\<open>time.Ticker\<close> never closes its channel, so
  every receive is a tick; \<^verbatim>\<open>for range ticker.C\<close> would leave the loop on \<open>Closed\<close>.
\<close>

datatype recv = Tick | Closed

definition ticker_C :: "nat \<Rightarrow> recv" where
  "ticker_C i = Tick"

text \<open>
  The loop, cut off after \<open>n\<close> receives: the result says whether the loop was left, and
  gives \<^verbatim>\<open>first\<close> and the state reached.
\<close>

fun main_loop :: "golib \<Rightarrow> Config \<Rightarrow> nat \<Rightarrow> nat \<Rightarrow> bool \<times> state \<Rightarrow> bool \<times> bool \<times> state" where
  "main_loop lib config 0 i fs = (False, fs)"
| "main_loop lib config (Suc n) i fs =
     (case ticker_C i of
        Closed \<Rightarrow> (True, fs)
      | Tick \<Rightarrow> main_loop lib config n (Suc i) (tick lib config fs))"


section \<open>The click dispatcher\<close>

subsection \<open>The process environment\<close>

text \<open>
  The environment is the list of its variables with their values. \<^verbatim>\<open>os.Setenv\<close> refuses
  an empty key, a key with \<open>=\<close> or a zero byte and a value with a zero byte (the program
  ignores the error returned); \<^verbatim>\<open>os.Environ\<close> gives the entries as \<open>key=value\<close>.
\<close>

fun assign :: "string \<Rightarrow> string \<Rightarrow> (string \<times> string) list \<Rightarrow> (string \<times> string) list" where
  "assign k v [] = [(k, v)]"
| "assign k v ((k', v') # e) = (if k' = k then (k, v) # e else (k', v') # assign k v e)"

definition Setenv :: "string \<Rightarrow> string \<Rightarrow> (string \<times> string) list \<Rightarrow> (string \<times> string) list" where
  "Setenv k v e =
     (if k = '''' \<or> CHR ''='' \<in> set k \<or> CHR 0x00 \<in> set k \<or> CHR 0x00 \<in> set v then e
      else assign k v e)"

definition Environ :: "(string \<times> string) list \<Rightarrow> string list" where
  "Environ e = map (\<lambda>(k, v). k @ ''='' @ v) e"

definition Clearenv :: "(string \<times> string) list" where
  "Clearenv = []"

text \<open>\<^verbatim>\<open>strings.Cut(s, "=")\<close>: the text before and after the first \<open>=\<close>.\<close>

definition Cut :: "string \<Rightarrow> string \<times> string" where
  "Cut s = (takeWhile (\<lambda>c. c \<noteq> CHR ''='') s, drop 1 (dropWhile (\<lambda>c. c \<noteq> CHR ''='') s))"

text \<open>The deferred closure of \<^verbatim>\<open>handleClickEvents\<close>, for the snapshot it captured.\<close>

definition restoreEnv :: "string list \<Rightarrow> state \<Rightarrow> state" where
  "restoreEnv oldEnv st =
     st\<lparr>env := fold (\<lambda>entry e. case Cut entry of (key, val) \<Rightarrow> Setenv key val e) oldEnv Clearenv\<rparr>"

subsection \<open>Events\<close>

definition Button_String :: "int \<Rightarrow> string" where
  "Button_String b =
     (if b = 1 then ''Left''
      else if b = 2 then ''Middle''
      else if b = 3 then ''Right''
      else if b = 4 then ''ScrollUp''
      else if b = 5 then ''ScrollDown''
      else '''')"

definition findBlockByName :: "Config \<Rightarrow> string \<Rightarrow> Block option" where
  "findBlockByName config name = find (\<lambda>block. B_Name block = name) (Blocks config)"

definition NewEventFromRaw :: "golib \<Rightarrow> string \<Rightarrow> state \<Rightarrow> (error + I3barClickEvent) \<times> state" where
  "NewEventFromRaw lib raw0 st =
     (let raw = TrimLeftFunc lib (\<lambda>r. r = of_char CHR '','' \<or> IsSpace lib r) raw0;
          raw = TrimLeftFunc lib (\<lambda>r. r \<noteq> of_char CHR ''{'') raw;
          raw = TrimRightFunc lib (\<lambda>r. r \<noteq> of_char CHR ''}'') raw;
          st = logs st [LogProcessedRaw raw]
      in case Unmarshal lib raw of
           None \<Rightarrow> (Inl ClickEventParseFailed, logs st [LogUnmarshalError, LogProblematicJSON raw])
         | Some ev \<Rightarrow> (Inr ev, st))"

subsection \<open>The dispatcher loop\<close>

text \<open>
  A statement \<^verbatim>\<open>defer\<close> inside the loop of \<^verbatim>\<open>handleClickEvents\<close> registers its closure on
  the function: the closures run, last registered first, when \<^verbatim>\<open>handleClickEvents\<close>
  returns. The loop therefore carries the environment snapshots of the closures that are
  pending, newest first (the deferred \<^verbatim>\<open>cancel\<close> calls have no effect on the state).
\<close>

text \<open>The part of the loop body from the choice of the interpreter on.\<close>

definition invokeHandler ::
  "golib \<Rightarrow> Block \<Rightarrow> MouseEvent \<Rightarrow> I3barClickEvent \<Rightarrow> state \<times> string list list \<Rightarrow> state \<times> string list list" where
  "invokeHandler lib block mouseEvent ev sd =
     (let (st, pending) = sd;
          interpreter = (if ME_Interpreter mouseEvent = '''' then Interpreter block
                         else ME_Interpreter mouseEvent);
          st = logs st [LogInterpreter interpreter];
          oldEnv = Environ (env st);
          st = st\<lparr>env := Setenv ''BUTTON'' (Button_String (Button ev)) (env st)\<rparr>;
          st = st\<lparr>env := Setenv ''X'' (Itoa lib (X ev)) (env st)\<rparr>;
          st = st\<lparr>env := Setenv ''Y'' (Itoa lib (Y ev)) (env st)\<rparr>;
          pending = oldEnv # pending;
          st = logs st [LogExecutingHandler (B_Name block), LogHandlerDetails mouseEvent];
          (r, st) = (if ME_Command mouseEvent \<noteq> '''' then executeCommand lib (ME_Command mouseEvent) st
                     else executeScript lib interpreter (ME_Script mouseEvent) st)
      in case r of
           Inl err \<Rightarrow> ((logs st [LogHandlerError (B_Name block) err])\<lparr>stderr := stderr st @ [err]\<rparr>, pending)
         | Inr output \<Rightarrow> (logs st [LogHandlerOutput (B_Name block) output], pending))"

text \<open>The loop body, for one line read from standard input.\<close>

definition clickRecord ::
  "golib \<Rightarrow> Config \<Rightarrow> string \<Rightarrow> state \<times> string list list \<Rightarrow> state \<times> string list list" where
  "clickRecord lib config raw sd =
     (let (st, pending) = sd;
          st = logs st [LogRawInput raw]
      in if length (TrimSpace lib raw) = 0 then (logs st [LogSkipEmpty], pending)
         else if raw = '','' then (logs st [LogSkipComma], pending)
         else
           (case NewEventFromRaw lib raw st of
              (Inl err, st) \<Rightarrow> (logs st [LogParseError err], pending)
            | (Inr ev, st) \<Rightarrow>
                (case findBlockByName config (EV_Name ev) of
                   None \<Rightarrow> (logs st [LogNoBlock (EV_Name ev)], pending)
                 | Some block \<Rightarrow>
                     (let st = logs st [LogMatchedBlock block];
                          eventName = Button_String (Button ev)
                      in (case map_of (MouseEvents block) eventName of
                            None \<Rightarrow> (logs st [LogNoHandler eventName (B_Name block)], pending)
                          | Some mouseEvent \<Rightarrow>
                              (let st = logs st [LogScript (ME_Script mouseEvent)]
                               in (if ME_Script mouseEvent = '''' \<and> ME_Command mouseEvent = ''''
                                   then (logs st [LogNoScript (B_Name block)], pending)
                                   else invokeHandler lib block mouseEvent ev (st, pending))))))))"

fun clickLoop ::
  "golib \<Rightarrow> Config \<Rightarrow> string list \<Rightarrow> state \<times> string list list \<Rightarrow> state \<times> string list list" where
  "clickLoop lib config [] sd = sd"
| "clickLoop lib config (raw # rest) sd = clickLoop lib config rest (clickRecord lib config raw sd)"

text \<open>
  \<^verbatim>\<open>handleClickEvents\<close> on the lines the scanner delivers before it stops; \<open>failed\<close> says
  whether the scanner stopped on an error rather than at the end of the input.
\<close>

definition handleClickEvents :: "golib \<Rightarrow> Config \<Rightarrow> string list \<Rightarrow> bool \<Rightarrow> state \<Rightarrow> state" where
  "handleClickEvents lib config lines failed st =
     (let st = logs st [LogStarting];
          (st, rest) = (case lines of [] \<Rightarrow> (st, []) | l # ls \<Rightarrow> (logs st [LogInitialLine l], ls));
          (st, pending) = clickLoop lib config rest (st, []);
          st = (if failed then logs st [LogReadError] else st);
          st = fold restoreEnv pending st
      in logs st [LogFinished])"

section \<open>The process: scheduler and dispatcher side by side\<close>

text \<open>
  After the header and the line \<open>[\<close>, \<^verbatim>\<open>main\<close> starts a goroutine when some block has a
  mouse handler: it runs \<^verbatim>\<open>handleClickEvents\<close>, then writes \<open>Triggered\<close> between two
  newlines to standard output and ends the process with \<^verbatim>\<open>os.Exit(0)\<close>. Meanwhile \<^verbatim>\<open>main\<close>
  runs the tick loop. The two units act on the same state, in an order that a schedule
  gives. A step of the scheduler is one receive from the ticker together with the run of
  the blocks, or one write to standard output (the comma and the snapshot are two writes).
  A step of the dispatcher is the start of \<^verbatim>\<open>handleClickEvents\<close> with the scan of the first
  line, the handling of one further line, the return of \<^verbatim>\<open>handleClickEvents\<close> once the
  input has ended (with its deferred closures), the write of \<open>Triggered\<close>, or the exit.
\<close>

text \<open>Where the scheduler stands: the ticks received so far, and \<^verbatim>\<open>first\<close> or the snapshot.\<close>

datatype main_at =
    AtTick nat bool
  | AtComma nat "Output list"
  | AtSnapshot nat "Output list"
  | AtClose
  | AtSelect

fun mainStep :: "golib \<Rightarrow> Config \<Rightarrow> main_at \<times> state \<Rightarrow> main_at \<times> state" where
  "mainStep lib config (AtTick i first, st) =
     (case ticker_C i of
        Closed \<Rightarrow> (AtClose, st)
      | Tick \<Rightarrow>
          (case runBlocks lib config st of
             (Inl err, st') \<Rightarrow> (AtTick (Suc i) first, logs st' [LogTickError err])
           | (Inr outputs, st') \<Rightarrow>
               (if \<not> first then (AtComma (Suc i) outputs, st')
                else (AtSnapshot (Suc i) outputs, st'))))"
| "mainStep lib config (AtComma i outputs, st) =
     (AtSnapshot i outputs, st\<lparr>stdout := stdout st @ [WString '','']\<rparr>)"
| "mainStep lib config (AtSnapshot i outputs, st) =
     (AtTick i False, st\<lparr>stdout := stdout st @ [WJson outputs]\<rparr>)"
| "mainStep lib config (AtClose, st) = (AtSelect, st\<lparr>stdout := stdout st @ [WLine '']'']\<rparr>)"
| "mainStep lib config (AtSelect, st) = (AtSelect, st)"

text \<open>The steps of one iteration of the tick loop, one after the other.\<close>

definition tickSteps :: "golib \<Rightarrow> Config \<Rightarrow> main_at \<times> state \<Rightarrow> main_at \<times> state" where
  "tickSteps lib config ms =
     (case mainStep lib config ms of
        (AtComma i outputs, st) \<Rightarrow> mainStep lib config (mainStep lib config (AtComma i outputs, st))
      | (AtSnapshot i outputs, st) \<Rightarrow> mainStep lib config (AtSnapshot i outputs, st)
      | (m, st) \<Rightarrow> (m, st))"

text \<open>The write of the goroutine.\<close>

definition triggered :: stdout_write where
  "triggered = WString (CHR 0x0A # ''Triggered'' @ [CHR 0x0A])"

text \<open>
  Where the dispatcher stands: not started, about to scan the first of the lines, in the
  loop with the lines still to come and the pending closures, returned from
  \<^verbatim>\<open>handleClickEvents\<close>, or about to exit. The third component of a step says whether the
  process exits.
\<close>

datatype dispatcher_at =
    NotStarted
  | AtScan "string list"
  | AtRecord "string list" "string list list"
  | AtTriggered
  | AtExit

fun dispatcherStep ::
  "golib \<Rightarrow> Config \<Rightarrow> bool \<Rightarrow> dispatcher_at \<times> state \<Rightarrow> dispatcher_at \<times> state \<times> bool" where
  "dispatcherStep lib config failed (NotStarted, st) = (NotStarted, st, False)"
| "dispatcherStep lib config failed (AtScan [], st) = (AtRecord [] [], logs st [LogStarting], False)"
| "dispatcherStep lib config failed (AtScan (l # ls), st) =
     (AtRecord ls [], logs (logs st [LogStarting]) [LogInitialLine l], False)"
| "dispatcherStep lib config failed (AtRecord (raw # rest) pending, st) =
     (case clickRecord lib config raw (st, pending) of
        (st', pending') \<Rightarrow> (AtRecord rest pending', st', False))"
| "dispatcherStep lib config failed (AtRecord [] pending, st) =
     (AtTriggered,
      logs (fold restoreEnv pending (if failed then logs st [LogReadError] else st)) [LogFinished],
      False)"
| "dispatcherStep lib config failed (AtTriggered, st) =
     (AtExit, st\<lparr>stdout := stdout st @ [triggered]\<rparr>, False)"
| "dispatcherStep lib config failed (AtExit, st) = (AtExit, st, True)"




text \<open>A step of the dispatcher without the exit flag.\<close>

definition dispatcherMove ::
  "golib \<Rightarrow> Config \<Rightarrow> bool \<Rightarrow> dispatcher_at \<times> state \<Rightarrow> dispatcher_at \<times> state" where
  "dispatcherMove lib config failed ds =
     (case dispatcherStep lib config failed ds of (d', st', ex) \<Rightarrow> (d', st'))"


section \<open>Notions used in the statements\<close>


text \<open>Two states that differ at most in the calls to the logger.\<close>

definition agree :: "state \<Rightarrow> state \<Rightarrow> bool" where
  "agree s t \<longleftrightarrow> env s = env t \<and> calls s = calls t \<and> stdout s = stdout t \<and> stderr s = stderr t"





section \<open>A library instance and a configuration for the examples\<close>

text \<open>
  The examples run the model on a small world: ASCII white space, exact arithmetic
  (every value that occurs in them is a float64, so no operation rounds), the results of
  \<^verbatim>\<open>strconv.ParseFloat\<close> and \<^verbatim>\<open>json.Unmarshal\<close> on the few strings that occur, three
  commands (\<^verbatim>\<open>echo 42\<close> prints \<open>42\<close> and a newline, \<^verbatim>\<open>true\<close> prints nothing, anything
  else fails), and of the template language the plain text without an action, which renders
  as itself, and the action \<^verbatim>\<open>{{.Text}}\<close>, which renders as the captured text.
\<close>

definition isSpace0 :: "nat \<Rightarrow> bool" where
  "isSpace0 r = (r = 9 \<or> r = 10 \<or> r = 11 \<or> r = 12 \<or> r = 13 \<or> r = 32)"

definition TrimSpace0 :: "string \<Rightarrow> string" where
  "TrimSpace0 s =
     rev (dropWhile (\<lambda>c. isSpace0 (of_char c)) (rev (dropWhile (\<lambda>c. isSpace0 (of_char c)) s)))"

fun fieldsFrom :: "string \<Rightarrow> string \<Rightarrow> string list" where
  "fieldsFrom cur [] = (if cur = [] then [] else [cur])"
| "fieldsFrom cur (c # cs) =
     (if isSpace0 (of_char c) then (if cur = [] then fieldsFrom [] cs else cur # fieldsFrom [] cs)
      else fieldsFrom (cur @ [c]) cs)"

definition ParseFloat0 :: "string \<Rightarrow> real option" where
  "ParseFloat0 s =
     (if s = ''-50'' then Some (-50) else if s = ''0'' then Some 0
      else if s = ''40'' then Some 40 else if s = ''75'' then Some 75
      else if s = ''100'' then Some 100 else None)"

fun digits :: "nat \<Rightarrow> string" where
  "digits n =
     (if n < 10 then [''0123456789'' ! n] else digits (n div 10) @ [''0123456789'' ! (n mod 10)])"

definition Itoa0 :: "int \<Rightarrow> string" where
  "Itoa0 n = (if n < 0 then CHR ''-'' # digits (nat (- n)) else digits (nat n))"

definition click :: "string \<Rightarrow> int \<Rightarrow> I3barClickEvent" where
  "click name button =
     \<lparr>EV_Name = name, Instance = '''', X = 5, Y = 7, Button = button, Event = 0,
      RelativeX = 0, RelativeY = 0, Width = 0, Height = 0, Scale = 0\<rparr>"

definition Unmarshal0 :: "string \<Rightarrow> I3barClickEvent option" where
  \<open>Unmarshal0 s =
     (if s = ''{"name":"vol","button":1,"x":5,"y":7}'' then Some (click ''vol'' 1)
      else if s = ''{"name":"vol","button":3,"x":5,"y":7}'' then Some (click ''vol'' 3)
      else if s = ''{"name":"cpu","button":1,"x":5,"y":7}'' then Some (click ''cpu'' 1)
      else None)\<close>

definition Exec0 :: "nat \<Rightarrow> string list \<Rightarrow> (string \<times> string) list \<Rightarrow> string + string" where
  "Exec0 t argv e =
     (if argv = [''echo'', ''42''] then Inr (''42'' @ [CHR 0x0A])
      else if argv = [''true''] then Inr ''''
      else Inl ''exit status 1'')"

definition Render0 ::
  "nat \<Rightarrow> (arg list \<Rightarrow> error + string) \<Rightarrow> string \<Rightarrow> string \<Rightarrow> tmpl_data \<Rightarrow> render_result" where
  "Render0 t symbol field tmpl data =
     (if tmpl = ''{{.Text}}'' then Rendered (Text data)
      else if CHR ''{'' \<notin> set tmpl then Rendered tmpl
      else ParseError ''unsupported'')"

definition lib0 :: golib where
  "lib0 = \<lparr>rnd = (\<lambda>x. x), ParseFloat = ParseFloat0, Sprintv = (\<lambda>a. ''''), Itoa = Itoa0,
            TrimSpace = TrimSpace0, Fields = fieldsFrom [], IsSpace = isSpace0,
            TrimLeftFunc = (\<lambda>p. dropWhile (\<lambda>c. p (of_char c))),
            TrimRightFunc = (\<lambda>p s. rev (dropWhile (\<lambda>c. p (of_char c)) (rev s))),
            Unmarshal = Unmarshal0, LookPath = (\<lambda>t e name. name = ''sh''),
            Exec = Exec0, Render = Render0\<rparr>"

definition plainOutput :: Output where
  "plainOutput = \<lparr>O_Name = '''', FullText = ''{{.Text}}'', ShortText = '''', Color = '''',
     Background = '''', Border = '''', BorderTop = 0, BorderRight = 0, BorderBottom = 0,
     BorderLeft = 0, MinWidth = INil, Align = '''', Urgent = False, O_Separator = False,
     SeparatorBlockWidth = 0, Markup = ''''\<rparr>"

text \<open>
  Block \<open>cpu\<close> succeeds; block \<open>vol\<close> fails on every tick and handles the left button;
  the third block is named by a template action.
\<close>

definition blockA :: Block where
  "blockA = \<lparr>B_Name = ''cpu'', Interval = 1, Interpreter = '''', Script = '''',
     Command = ''echo 42'', B_Output = plainOutput, MouseEvents = []\<rparr>"

definition blockB :: Block where
  "blockB = \<lparr>B_Name = ''vol'', Interval = 1, Interpreter = '''', Script = '''',
     Command = ''false'', B_Output = plainOutput,
     MouseEvents = [(''Left'', \<lparr>ME_Interpreter = '''', ME_Script = '''', ME_Command = ''true''\<rparr>)]\<rparr>"

definition blockT :: Block where
  "blockT = \<lparr>B_Name = ''{{.Text}}'', Interval = 1, Interpreter = '''', Script = '''',
     Command = ''echo 42'', B_Output = plainOutput, MouseEvents = []\<rparr>"

text \<open>Block \<open>mem\<close> succeeds and handles the left button.\<close>

definition blockC :: Block where
  "blockC = \<lparr>B_Name = ''mem'', Interval = 1, Interpreter = '''', Script = '''',
     Command = ''echo 42'', B_Output = plainOutput,
     MouseEvents = [(''Left'', \<lparr>ME_Interpreter = '''', ME_Script = '''', ME_Command = ''true''\<rparr>)]\<rparr>"

definition config0 :: "Block list \<Rightarrow> Config" where
  "config0 bs = \<lparr>StopSignal = 0, ContSignal = 0, Separator = '''', SymbolLists = [],
     Blocks = bs, ClickEvents = False\<rparr>"

declare digits.simps [simp del]

lemmas lib0_simps = lib0_def isSpace0_def TrimSpace0_def ParseFloat0_def Itoa0_def digits.simps
  Unmarshal0_def click_def Exec0_def Render0_def

lemmas example_simps = blockA_def blockB_def blockT_def blockC_def plainOutput_def config0_def
  initial_def

section \<open>The symbol resolver: results\<close>

text \<open>
  Claim C10. Called with no argument, \<^verbatim>\<open>Symbol\<close> returns the empty string: neither the
  fallback glyph \<open>?\<close> nor an error.
\<close>

theorem Symbol_no_args: "Symbol lib config [] = Inr ''''"
  by (simp add: Symbol_def)

text \<open>
  Claim C8. The first argument is printed, a trailing \<open>%\<close> is stripped (and surrounding
  white space trimmed), and the rest is parsed as a float; when the parse fails the
  resolver returns the glyph \<open>?\<close> as a value, whatever the other arguments are.
\<close>

theorem Symbol_parse_failure:
  assumes "ParseFloat lib (TrimSpace lib (TrimSuffix (fmtV lib a) ''%'')) = None"
  shows "Symbol lib config (a # rest) = Inr ''?''"
  using assms by (simp add: Symbol_def)

theorem Symbol_parse_failure_witness:
  "ParseFloat lib0 (TrimSpace lib0 (TrimSuffix (fmtV lib0 (AString ''abc'')) ''%'')) = None \<and>
   Symbol lib0 (config0 []) [AString ''abc'', AStrings [''x'', ''y''], AFloat 2] = Inr ''?''"
proof -
  have h: "ParseFloat lib0 (TrimSpace lib0 (TrimSuffix (fmtV lib0 (AString ''abc'')) ''%'')) = None"
    by (simp add: lib0_simps fmtV_def TrimSuffix_def)
  show ?thesis
    using h Symbol_parse_failure [OF h, of "config0 []" "[AStrings [''x'', ''y''], AFloat 2]"]
    by simp
qed

lemma go_int_nonneg: "0 \<le> x \<Longrightarrow> go_int x = \<lfloor>x\<rfloor>"
  by (simp add: go_int_def)

text \<open>
  The index of the branch for values up to 100, for a rounding that is monotone and exact
  on 0, 1 and \<open>n - 1\<close>: it lies within a list of \<open>n\<close> glyphs and grows with the value.
\<close>

lemma symbolIndex_bounds:
  assumes m: "mono (rnd lib)"
    and r0: "rnd lib 0 = 0" and r1: "rnd lib 1 = 1"
    and rn: "rnd lib (real (n - 1)) = real (n - 1)"
    and n: "0 < n"
    and x: "0 \<le> x" "x \<le> y" "y \<le> 100"
  shows "0 \<le> symbolIndex lib n x"
    and "symbolIndex lib n x \<le> symbolIndex lib n y"
    and "symbolIndex lib n y < int n"
proof -
  define k where "k = real (n - 1)"
  have k: "0 \<le> k" "float64 lib (int n - 1) = k"
    using n rn by (simp_all add: k_def float64_def)
  define qx where "qx = fdiv lib x 100"
  define qy where "qy = fdiv lib y 100"
  have q0: "0 \<le> qx"
    using monoD [OF m, of 0 "x / 100"] x r0 by (simp add: qx_def fdiv_def)
  have qxy: "qx \<le> qy"
    using monoD [OF m, of "x / 100" "y / 100"] x
    by (simp add: qx_def qy_def fdiv_def divide_right_mono)
  have q1: "qy \<le> 1"
    using monoD [OF m, of "y / 100" 1] x r1 by (simp add: qy_def fdiv_def)
  define px where "px = fmul lib qx k"
  define py where "py = fmul lib qy k"
  have p0: "0 \<le> px"
    using monoD [OF m, of 0 "qx * k"] q0 k r0 by (simp add: px_def fmul_def)
  have pxy: "px \<le> py"
    using monoD [OF m, of "qx * k" "qy * k"] qxy k
    by (simp add: px_def py_def fmul_def mult_right_mono)
  have "qy * k \<le> 1 * k"
    using q1 k(1) by (rule mult_right_mono)
  then have "rnd lib (qy * k) \<le> rnd lib k"
    using monoD [OF m, of "qy * k" k] by simp
  then have pk: "py \<le> k"
    using rn by (simp add: py_def fmul_def k_def)
  have ix: "symbolIndex lib n x = \<lfloor>px\<rfloor>"
    using p0 k by (simp add: symbolIndex_def px_def qx_def go_int_nonneg)
  have iy: "symbolIndex lib n y = \<lfloor>py\<rfloor>"
    using p0 pxy k by (simp add: symbolIndex_def py_def qy_def go_int_nonneg)
  show "0 \<le> symbolIndex lib n x" using ix p0 by simp
  show "symbolIndex lib n x \<le> symbolIndex lib n y" using ix iy pxy by (simp add: floor_mono)
  have "\<lfloor>py\<rfloor> \<le> \<lfloor>k\<rfloor>" using pk by (rule floor_mono)
  also have "\<lfloor>k\<rfloor> = int (n - 1)" by (simp add: k_def)
  finally show "symbolIndex lib n y < int n" using iy n by simp
qed

text \<open>Two arguments, the second one a non-empty list or the name of one.\<close>

lemma Symbol_two_args:
  assumes p: "ParseFloat lib (TrimSpace lib (TrimSuffix v ''%'')) = Some x"
    and L: "L \<noteq> []"
    and a: "a = AStrings L \<or> (\<exists>name. a = AString name \<and> findSymbolList config name = Some L)"
    and le: "rnd lib x \<le> 100"
  shows "Symbol lib config [AString v, a] = index L (symbolIndex lib (length L) (rnd lib x))"
proof -
  have s: "secondArg config a defaultSymbols = L"
    using a L by auto
  show ?thesis
    using p L le s by (simp add: Symbol_def fmtV_def Let_def fdiv_def)
qed

text \<open>
  Claim C6. For numeric strings \<open>v\<close> and \<open>w\<close> with values \<open>0 \<le> x \<le> y \<le> 100\<close> and a
  non-empty glyph list \<open>L\<close>, given literally or by its name in the configuration, the
  resolver returns elements of \<open>L\<close>, and the index for \<open>v\<close> is at most the index for \<open>w\<close>.
  This holds for every float64 rounding that is monotone and exact on 0, 1, 100 and
  \<open>length L - 1\<close>, as round-to-nearest is.
\<close>

theorem Symbol_in_list_monotone:
  assumes m: "mono (rnd lib)"
    and r0: "rnd lib 0 = 0" and r1: "rnd lib 1 = 1" and r100: "rnd lib 100 = 100"
    and rn: "rnd lib (real (length L - 1)) = real (length L - 1)"
    and L: "L \<noteq> []"
    and a: "a = AStrings L \<or> (\<exists>name. a = AString name \<and> findSymbolList config name = Some L)"
    and pv: "ParseFloat lib (TrimSpace lib (TrimSuffix v ''%'')) = Some x"
    and pw: "ParseFloat lib (TrimSpace lib (TrimSuffix w ''%'')) = Some y"
    and x: "0 \<le> x" "x \<le> y" "y \<le> 100"
  shows "\<exists>i j. Symbol lib config [AString v, a] = Inr (L ! i) \<and>
               Symbol lib config [AString w, a] = Inr (L ! j) \<and>
               i \<le> j \<and> j < length L \<and>
               int i = symbolIndex lib (length L) (rnd lib x) \<and>
               int j = symbolIndex lib (length L) (rnd lib y)"
proof -
  have rx: "0 \<le> rnd lib x" using monoD [OF m, of 0 x] x r0 by simp
  have rxy: "rnd lib x \<le> rnd lib y" using monoD [OF m, of x y] x by simp
  have ry: "rnd lib y \<le> 100" using monoD [OF m, of y 100] x r100 by simp
  have n: "0 < length L" using L by simp
  note b = symbolIndex_bounds [OF m r0 r1 rn n rx rxy ry]
  let ?i = "symbolIndex lib (length L) (rnd lib x)"
  let ?j = "symbolIndex lib (length L) (rnd lib y)"
  have sv: "Symbol lib config [AString v, a] = Inr (L ! nat ?i)"
    using Symbol_two_args [OF pv L a] rxy ry b by (simp add: index_def)
  have sw: "Symbol lib config [AString w, a] = Inr (L ! nat ?j)"
    using Symbol_two_args [OF pw L a ry] b by (simp add: index_def)
  have "Symbol lib config [AString v, a] = Inr (L ! nat ?i) \<and>
        Symbol lib config [AString w, a] = Inr (L ! nat ?j) \<and>
        nat ?i \<le> nat ?j \<and> nat ?j < length L \<and> int (nat ?i) = ?i \<and> int (nat ?j) = ?j"
    using sv sw b by (simp add: nat_le_iff nat_less_iff)
  then show ?thesis by blast
qed

theorem Symbol_in_list_monotone_witness:
  "mono (rnd lib0) \<and>
   Symbol lib0 (config0 []) [AString ''40%'', AStrings [''a'', ''b'', ''c'']] = Inr ''a'' \<and>
   Symbol lib0 (config0 []) [AString ''75%'', AStrings [''a'', ''b'', ''c'']] = Inr ''b''"
proof -
  let ?L = "[''a'', ''b'', ''c'']"
  have m: "mono (rnd lib0)" by (simp add: lib0_def mono_def)
  have r: "rnd lib0 0 = 0" "rnd lib0 1 = 1" "rnd lib0 100 = 100"
    "rnd lib0 (real (length ?L - 1)) = real (length ?L - 1)"
    by (simp_all add: lib0_def)
  have a: "AStrings ?L = AStrings ?L \<or>
     (\<exists>name. AStrings ?L = AString name \<and> findSymbolList (config0 []) name = Some ?L)"
    by simp
  have pv: "ParseFloat lib0 (TrimSpace lib0 (TrimSuffix ''40%'' ''%'')) = Some 40"
    by (simp add: lib0_simps TrimSuffix_def)
  have pw: "ParseFloat lib0 (TrimSpace lib0 (TrimSuffix ''75%'' ''%'')) = Some 75"
    by (simp add: lib0_simps TrimSuffix_def)
  have i: "symbolIndex lib0 (length ?L) (rnd lib0 40) = 0"
    "symbolIndex lib0 (length ?L) (rnd lib0 75) = 1"
    by (simp_all add: symbolIndex_def fmul_def fdiv_def float64_def go_int_def lib0_def)
  from Symbol_in_list_monotone [OF m r(1,2,3,4) _ a pv pw]
  obtain i j where ij:
    "Symbol lib0 (config0 []) [AString ''40%'', AStrings ?L] = Inr (?L ! i)"
    "Symbol lib0 (config0 []) [AString ''75%'', AStrings ?L] = Inr (?L ! j)"
    "i \<le> j" "j < length ?L"
    "int i = symbolIndex lib0 (length ?L) (rnd lib0 40)"
    "int j = symbolIndex lib0 (length ?L) (rnd lib0 75)"
    by auto
  have "i = 0" "j = 1"
    using ij(5,6) i by simp_all
  then show ?thesis
    using ij(1,2) m by simp
qed

text \<open>
  Claim C4. The claim says that the index is clamped for every numeric value, negative
  ones included. The branch for values up to 100 has no lower bound: the reading \<open>-50\<close>
  on the built-in five-glyph ramp gives the index \<open>-2\<close>, and indexing the list with it
  panics instead of returning a glyph.
\<close>

theorem Symbol_negative_out_of_range:
  "Symbol lib0 (config0 []) [AString ''-50''] = Inl (IndexOutOfRange (- 2) 5)"
  by (simp add: Symbol_def lib0_simps fmtV_def TrimSuffix_def defaultSymbols_def
      defaultOver100Symbols_def fdiv_def fmul_def float64_def symbolIndex_def go_int_def
      index_def Let_def)

section \<open>The scheduler and the protocol writer: results\<close>

subsection \<open>What running a command or a block leaves unchanged\<close>

lemma cmdOutput_frame:
  "cmdOutput lib argv st = (r, st') \<Longrightarrow>
     logged st' = logged st \<and> stdout st' = stdout st \<and> env st' = env st \<and> stderr st' = stderr st"
  by (auto simp: cmdOutput_def)

lemma executeCommand_frame:
  "executeCommand lib c st = (r, st') \<Longrightarrow>
     logged st' = logged st \<and> stdout st' = stdout st \<and> env st' = env st \<and> stderr st' = stderr st"
  by (auto simp: executeCommand_def Let_def split: if_splits prod.splits sum.splits
      dest: cmdOutput_frame)

lemma executeScript_frame:
  "executeScript lib i s st = (r, st') \<Longrightarrow>
     logged st' = logged st \<and> stdout st' = stdout st \<and> env st' = env st \<and> stderr st' = stderr st"
  by (auto simp: executeScript_def Let_def split: if_splits prod.splits sum.splits
      dest: cmdOutput_frame)

lemma executeBlock_frame:
  assumes "executeBlock lib block config st = (r, st')"
  shows "logged st' = logged st @ [LogExecutingBlock (B_Name block)] \<and> stdout st' = stdout st \<and>
         env st' = env st \<and> stderr st' = stderr st"
proof -
  let ?st0 = "logs st [LogExecutingBlock (B_Name block)]"
  obtain r1 st1 where run:
    "(if Command block \<noteq> '''' then executeCommand lib (Command block) ?st0
      else executeScript lib (Interpreter block) (Script block) ?st0) = (r1, st1)"
    by (cases "if Command block \<noteq> '''' then executeCommand lib (Command block) ?st0
      else executeScript lib (Interpreter block) (Script block) ?st0")
  then have f: "logged st1 = logged ?st0 \<and> stdout st1 = stdout ?st0 \<and> env st1 = env ?st0 \<and>
      stderr st1 = stderr ?st0"
    by (auto split: if_splits dest: executeCommand_frame executeScript_frame)
  have "st' = st1"
    using assms run by (auto simp: executeBlock_def Let_def split: sum.splits if_splits)
  then show ?thesis
    using f by (simp add: logs_def)
qed

lemma runBlocks_from_frame:
  "runBlocks_from lib config bs acc st = (r, st') \<Longrightarrow>
     stdout st' = stdout st \<and> env st' = env st \<and> stderr st' = stderr st"
proof (induction bs arbitrary: acc st)
  case Nil
  then show ?case by simp
next
  case (Cons b bs)
  obtain rb sb where e: "executeBlock lib b config st = (rb, sb)"
    by (cases "executeBlock lib b config st")
  note f = executeBlock_frame [OF e]
  show ?case
  proof (cases rb)
    case (Inl err)
    then show ?thesis using Cons.prems e f by simp
  next
    case (Inr out)
    then have "runBlocks_from lib config bs (acc @ [out]) sb = (r, st')"
      using Cons.prems e by simp
    from Cons.IH [OF this] f show ?thesis by simp
  qed
qed

lemma runBlocks_from_logged:
  "runBlocks_from lib config bs acc st = (Inr outs, st') \<Longrightarrow>
     logged st' = logged st @ map (\<lambda>b. LogExecutingBlock (B_Name b)) bs"
proof (induction bs arbitrary: acc st)
  case Nil
  then show ?case by simp
next
  case (Cons b bs)
  obtain rb sb where e: "executeBlock lib b config st = (rb, sb)"
    by (cases "executeBlock lib b config st")
  note f = executeBlock_frame [OF e]
  show ?case
  proof (cases rb)
    case (Inl err)
    then show ?thesis using Cons.prems e by simp
  next
    case (Inr out)
    then have "runBlocks_from lib config bs (acc @ [out]) sb = (Inr outs, st')"
      using Cons.prems e by simp
    from Cons.IH [OF this] f show ?thesis by simp
  qed
qed

lemma runBlocks_from_append:
  "runBlocks_from lib config (pre @ rest) acc st =
     (case runBlocks_from lib config pre acc st of
        (Inl err, st') \<Rightarrow> (Inl err, st')
      | (Inr outs, st') \<Rightarrow> runBlocks_from lib config rest outs st')"
  by (induction pre arbitrary: acc st) (auto split: prod.splits sum.splits)

subsection \<open>A failing block\<close>

text \<open>
  Claim C1. When the blocks before \<open>block\<close> render and \<open>block\<close> fails with \<open>err\<close>, the
  tick writes nothing to standard output (no snapshot, not even the items of the blocks
  that succeeded), leaves \<^verbatim>\<open>first\<close> as it was, logs the one error \<open>err\<close> after the
  lines announcing the blocks that ran, and the loop goes on with the next tick.
\<close>

theorem tick_error_skips_snapshot:
  assumes blocks: "Blocks config = pre @ block # post"
    and pre: "runBlocks_from lib config pre [] st = (Inr outputs, st1)"
    and fail: "executeBlock lib block config st1 = (Inl err, st2)"
  shows "tick lib config (first, st) = (first, logs st2 [LogTickError err]) \<and>
         stdout (logs st2 [LogTickError err]) = stdout st \<and>
         logged (logs st2 [LogTickError err]) =
           logged st @ map (\<lambda>b. LogExecutingBlock (B_Name b)) (pre @ [block]) @ [LogTickError err] \<and>
         main_loop lib config (Suc n) i (first, st) =
           main_loop lib config n (Suc i) (first, logs st2 [LogTickError err])"
proof -
  have run: "runBlocks lib config st = (Inl err, st2)"
    using blocks pre fail by (simp add: runBlocks_def runBlocks_from_append)
  then have t: "tick lib config (first, st) = (first, logs st2 [LogTickError err])"
    by (simp add: tick_def)
  have "stdout st2 = stdout st"
    using runBlocks_from_frame [of lib config "Blocks config" "[]" st] run
    by (simp add: runBlocks_def)
  then have s: "stdout (logs st2 [LogTickError err]) = stdout st"
    by (simp add: logs_def)
  have "logged st2 = logged st1 @ [LogExecutingBlock (B_Name block)]"
    using executeBlock_frame [OF fail] by simp
  then have l: "logged (logs st2 [LogTickError err]) =
      logged st @ map (\<lambda>b. LogExecutingBlock (B_Name b)) (pre @ [block]) @ [LogTickError err]"
    using runBlocks_from_logged [OF pre] by (simp add: logs_def)
  have "main_loop lib config (Suc n) i (first, st) =
      main_loop lib config n (Suc i) (first, logs st2 [LogTickError err])"
    using t by (simp add: ticker_C_def)
  then show ?thesis using t s l by blast
qed

text \<open>Blocks \<open>cpu\<close> (succeeds) and \<open>vol\<close> (exits with status 1), on the first tick.\<close>

theorem tick_error_skips_snapshot_witness:
  "tick lib0 (config0 [blockA, blockB]) (True, initial []) =
     (True, \<lparr>env = [], calls = [([''echo'', ''42''], []), ([''false''], [])],
             logged = [LogExecutingBlock ''cpu'', LogExecutingBlock ''vol'',
                       LogTickError (ExecutionFailed ''exit status 1'')],
             stdout = [], stderr = []\<rparr>)"
proof -
  let ?config = "config0 [blockA, blockB]"
  let ?st1 = "\<lparr>env = [], calls = [([''echo'', ''42''], [])],
               logged = [LogExecutingBlock ''cpu''], stdout = [], stderr = []\<rparr>"
  let ?st2 = "\<lparr>env = [], calls = [([''echo'', ''42''], []), ([''false''], [])],
               logged = [LogExecutingBlock ''cpu'', LogExecutingBlock ''vol''],
               stdout = [], stderr = []\<rparr>"
  have b: "Blocks ?config = [blockA] @ blockB # []"
    by (simp add: config0_def)
  have p: "runBlocks_from lib0 ?config [blockA] [] (initial []) =
      (Inr [plainOutput\<lparr>O_Name := ''cpu'', FullText := ''42''\<rparr>], ?st1)"
    by (simp add: executeBlock_def executeCommand_def cmdOutput_def lib0_simps example_simps
        logs_def stringFields_def Let_def)
  have f: "executeBlock lib0 blockB ?config ?st1 = (Inl (ExecutionFailed ''exit status 1''), ?st2)"
    by (simp add: executeBlock_def executeCommand_def cmdOutput_def lib0_simps example_simps
        logs_def stringFields_def Let_def)
  from tick_error_skips_snapshot [OF b p f, of True 0 0] show ?thesis
    by (simp add: logs_def)
qed

subsection \<open>Framing of the output stream\<close>




section \<open>The format engine: results\<close>

text \<open>
  What \<^verbatim>\<open>executeBlock\<close> does for the name in general: a pre-set name in the output is
  refused, and the name of the item returned is the rendering of the block's name as a
  template (the fields after \<open>Name\<close> leave it alone).
\<close>

lemma applyTemplates_keeps_name:
  assumes "\<forall>(field, getf, setf) \<in> set fs. \<forall>v out. O_Name (setf v out) = O_Name out"
    and "applyTemplates lib config t data fs outp = Inr out"
  shows "O_Name out = O_Name outp"
  using assms
proof (induction fs arbitrary: outp)
  case Nil
  then show ?case by simp
next
  case (Cons f fs)
  obtain field getf setf where f: "f = (field, getf, setf)" by (cases f)
  have keep: "\<And>v o'. O_Name (setf v o') = O_Name o'"
    using Cons.prems(1) f by auto
  have rest: "\<forall>(field, getf, setf) \<in> set fs. \<forall>v out. O_Name (setf v out) = O_Name out"
    using Cons.prems(1) by simp
  show ?case
  proof (cases "getf outp = ''''")
    case True
    then show ?thesis using Cons.IH [OF rest] Cons.prems(2) f by simp
  next
    case False
    then obtain s where "Render lib t (Symbol lib config) field (getf outp) data = Rendered s"
      "applyTemplates lib config t data fs (setf s outp) = Inr out"
      using Cons.prems(2) f by (auto simp: Let_def split: render_result.splits)
    then show ?thesis using Cons.IH [OF rest, of "setf s outp"] keep by simp
  qed
qed

lemma executeBlock_name_rendered:
  assumes "executeBlock lib block config st = (Inr out, st')"
  shows "O_Name (B_Output block) = '''' \<and>
         (if B_Name block = '''' then O_Name out = ''''
          else \<exists>text. Render lib (length (calls st')) (Symbol lib config) ''Name'' (B_Name block)
                         \<lparr>Text = text, Cfg = config\<rparr> = Rendered (O_Name out))"
proof -
  let ?st0 = "logs st [LogExecutingBlock (B_Name block)]"
  obtain r1 st1 where run:
    "(if Command block \<noteq> '''' then executeCommand lib (Command block) ?st0
      else executeScript lib (Interpreter block) (Script block) ?st0) = (r1, st1)"
    by (cases "if Command block \<noteq> '''' then executeCommand lib (Command block) ?st0
      else executeScript lib (Interpreter block) (Script block) ?st0")
  from assms run obtain outputText where r1: "r1 = Inr outputText"
    by (cases r1) (auto simp: executeBlock_def Let_def)
  let ?data = "\<lparr>Text = TrimSpace lib outputText, Cfg = config\<rparr>"
  have n: "O_Name (B_Output block) = ''''" and st: "st' = st1"
    and a: "applyTemplates lib config (length (calls st1)) ?data stringFields
              ((B_Output block)\<lparr>O_Name := B_Name block\<rparr>) = Inr out"
    using assms run r1 by (auto simp: executeBlock_def Let_def split: if_splits)
  let ?rest = "tl stringFields"
  have keep: "\<forall>(field, getf, setf) \<in> set ?rest. \<forall>v out. O_Name (setf v out) = O_Name out"
    by (simp add: stringFields_def)
  have sf: "stringFields = (''Name'', O_Name, \<lambda>v out. out\<lparr>O_Name := v\<rparr>) # ?rest"
    by (simp add: stringFields_def)
  show ?thesis
  proof (cases "B_Name block = ''''")
    case True
    then have "applyTemplates lib config (length (calls st1)) ?data ?rest
              ((B_Output block)\<lparr>O_Name := B_Name block\<rparr>) = Inr out"
      using a by (subst (asm) sf) simp
    from applyTemplates_keeps_name [OF keep this] True n show ?thesis by simp
  next
    case False
    then obtain s where s: "Render lib (length (calls st1)) (Symbol lib config) ''Name'' (B_Name block) ?data
         = Rendered s"
      "applyTemplates lib config (length (calls st1)) ?data ?rest
              ((B_Output block)\<lparr>O_Name := s\<rparr>) = Inr out"
      using a by (subst (asm) sf) (auto simp: Let_def split: render_result.splits)
    from applyTemplates_keeps_name [OF keep s(2)] have "O_Name out = s" by simp
    then show ?thesis using s(1) n st False by auto
  qed
qed

text \<open>
  Claim C2. The claim says that the name of a rendered item is assigned after the
  templates ran and is never itself rendered as a template. \<^verbatim>\<open>executeBlock\<close> assigns the
  block's name before the loop over the string fields, and the loop renders the field
  \<open>Name\<close> like every other: the block whose name is the action \<^verbatim>\<open>{{.Text}}\<close> and whose
  command prints \<open>42\<close> yields an item named \<open>42\<close>.
\<close>

theorem executeBlock_name_is_templated:
  "B_Name blockT = ''{{.Text}}'' \<and>
   map_sum id O_Name (fst (executeBlock lib0 blockT (config0 [blockT]) (initial []))) = Inr ''42''"
  by (simp add: executeBlock_def executeCommand_def cmdOutput_def lib0_simps example_simps
      logs_def stringFields_def Let_def)

section \<open>The click dispatcher: results\<close>

subsection \<open>The logger has no influence on the rest of the state\<close>

lemma agree_refl: "agree s s"
  by (simp add: agree_def)

lemma agree_logs: "agree s t \<Longrightarrow> agree (logs s es) (logs t fs)"
  by (simp add: agree_def logs_def)

lemma agree_logs_iff: "agree (logs s es) t = agree s t" "agree s (logs t es) = agree s t"
  by (simp_all add: agree_def logs_def)

lemma logs_logs: "logs (logs st es) fs = logs st (es @ fs)"
  by (simp add: logs_def)

lemma cmdOutput_agree:
  "agree s t \<Longrightarrow> fst (cmdOutput lib argv s) = fst (cmdOutput lib argv t) \<and>
     agree (snd (cmdOutput lib argv s)) (snd (cmdOutput lib argv t))"
  by (simp add: agree_def cmdOutput_def)

lemma executeCommand_agree:
  assumes "agree s t"
  shows "fst (executeCommand lib c s) = fst (executeCommand lib c t) \<and>
     agree (snd (executeCommand lib c s)) (snd (executeCommand lib c t))"
  using assms cmdOutput_agree [OF assms, of lib "hd (Fields lib c) # tl (Fields lib c)"]
  by (auto simp: executeCommand_def Let_def split: prod.splits sum.splits)

lemma executeScript_agree:
  assumes "agree s t"
  shows "fst (executeScript lib i c s) = fst (executeScript lib i c t) \<and>
     agree (snd (executeScript lib i c s)) (snd (executeScript lib i c t))"
proof -
  have e: "env s = env t" "calls s = calls t" using assms by (simp_all add: agree_def)
  show ?thesis
    using assms cmdOutput_agree [OF assms, of lib "hd (Fields lib i) # (tl (Fields lib i) @ [c])"]
    by (auto simp: executeScript_def Let_def e split: prod.splits sum.splits)
qed

lemma invokeHandler_agree:
  assumes "agree s t"
  shows "agree (fst (invokeHandler lib block me ev (s, p))) (fst (invokeHandler lib block me ev (t, p))) \<and>
         snd (invokeHandler lib block me ev (s, p)) = snd (invokeHandler lib block me ev (t, p))"
proof -
  let ?i = "if ME_Interpreter me = '''' then Interpreter block else ME_Interpreter me"
  let ?prep = "\<lambda>st. logs ((logs st [LogInterpreter ?i])\<lparr>env := Setenv ''Y'' (Itoa lib (Y ev))
       (Setenv ''X'' (Itoa lib (X ev)) (Setenv ''BUTTON'' (Button_String (Button ev)) (env st)))\<rparr>)
       [LogExecutingHandler (B_Name block), LogHandlerDetails me]"
  have a: "agree (?prep s) (?prep t)"
    using assms by (simp add: agree_def logs_def)
  have e: "Environ (env s) = Environ (env t)" using assms by (simp add: agree_def)
  note c = executeCommand_agree [OF a, of lib "ME_Command me"]
  note x = executeScript_agree [OF a, of lib ?i "ME_Script me"]
  show ?thesis
  proof (cases "ME_Command me \<noteq> ''''")
    case True
    then show ?thesis
      using c e
      by (auto simp: invokeHandler_def Let_def logs_def agree_def split: prod.splits sum.splits)
  next
    case False
    then show ?thesis
      using x e
      by (auto simp: invokeHandler_def Let_def logs_def agree_def split: prod.splits sum.splits)
  qed
qed

lemma NewEventFromRaw_unfold:
  "NewEventFromRaw lib raw st =
      (let raw' = TrimRightFunc lib (\<lambda>r. r \<noteq> of_char CHR ''}'')
         (TrimLeftFunc lib (\<lambda>r. r \<noteq> of_char CHR ''{'')
           (TrimLeftFunc lib (\<lambda>r. r = of_char CHR '','' \<or> IsSpace lib r) raw))
       in case Unmarshal lib raw' of
         None \<Rightarrow> (Inl ClickEventParseFailed,
                   logs st [LogProcessedRaw raw', LogUnmarshalError, LogProblematicJSON raw'])
       | Some ev \<Rightarrow> (Inr ev, logs st [LogProcessedRaw raw']))"
  by (simp add: NewEventFromRaw_def Let_def logs_logs split: option.splits)

text \<open>
  A line either only adds to the log, or invokes a handler after adding to the log; which
  of the two, and with which handler, depends on the line alone.
\<close>

lemma clickRecord_shape:
  "\<exists>es. (\<forall>st p. clickRecord lib config raw (st, p) = (logs st es, p)) \<or>
        (\<exists>block me ev. \<forall>st p. clickRecord lib config raw (st, p) =
                          invokeHandler lib block me ev (logs st es, p))"
proof -
  define raw' where "raw' = TrimRightFunc lib (\<lambda>r. r \<noteq> of_char CHR ''}'')
     (TrimLeftFunc lib (\<lambda>r. r \<noteq> of_char CHR ''{'')
       (TrimLeftFunc lib (\<lambda>r. r = of_char CHR '','' \<or> IsSpace lib r) raw))"
  have new: "\<And>st. NewEventFromRaw lib raw st =
      (case Unmarshal lib raw' of
         None \<Rightarrow> (Inl ClickEventParseFailed,
                   logs st [LogProcessedRaw raw', LogUnmarshalError, LogProblematicJSON raw'])
       | Some ev \<Rightarrow> (Inr ev, logs st [LogProcessedRaw raw']))"
    unfolding raw'_def by (simp add: NewEventFromRaw_unfold Let_def split: option.splits)
  consider (empty) "length (TrimSpace lib raw) = 0"
    | (comma) "length (TrimSpace lib raw) \<noteq> 0" "raw = '',''"
    | (bad) "length (TrimSpace lib raw) \<noteq> 0" "raw \<noteq> '',''" "Unmarshal lib raw' = None"
    | (ok) ev where "length (TrimSpace lib raw) \<noteq> 0" "raw \<noteq> '',''" "Unmarshal lib raw' = Some ev"
    by (cases "Unmarshal lib raw'") auto
  then show ?thesis
  proof cases
    case empty
    then have "\<forall>st p. clickRecord lib config raw (st, p) =
        (logs st [LogRawInput raw, LogSkipEmpty], p)"
      by (simp add: clickRecord_def Let_def logs_logs)
    then show ?thesis by blast
  next
    case comma
    then have "\<forall>st p. clickRecord lib config raw (st, p) =
        (logs st [LogRawInput raw, LogSkipComma], p)"
      by (simp add: clickRecord_def Let_def logs_logs)
    then show ?thesis by blast
  next
    case bad
    then have "\<forall>st p. clickRecord lib config raw (st, p) =
        (logs st [LogRawInput raw, LogProcessedRaw raw', LogUnmarshalError, LogProblematicJSON raw',
                   LogParseError ClickEventParseFailed], p)"
      by (simp add: clickRecord_def Let_def logs_logs new)
    then show ?thesis by blast
  next
    case ok
    show ?thesis
    proof (cases "findBlockByName config (EV_Name ev)")
      case None
      then have "\<forall>st p. clickRecord lib config raw (st, p) =
          (logs st [LogRawInput raw, LogProcessedRaw raw', LogNoBlock (EV_Name ev)], p)"
        using ok by (simp add: clickRecord_def Let_def logs_logs new)
      then show ?thesis by blast
    next
      case (Some block)
      show ?thesis
      proof (cases "map_of (MouseEvents block) (Button_String (Button ev))")
        case None
        then have "\<forall>st p. clickRecord lib config raw (st, p) =
            (logs st [LogRawInput raw, LogProcessedRaw raw', LogMatchedBlock block,
                       LogNoHandler (Button_String (Button ev)) (B_Name block)], p)"
          using ok Some by (simp add: clickRecord_def Let_def logs_logs new)
        then show ?thesis by blast
      next
        case me: (Some me)
        show ?thesis
        proof (cases "ME_Script me = [] \<and> ME_Command me = []")
          case True
          then have "\<forall>st p. clickRecord lib config raw (st, p) =
              (logs st [LogRawInput raw, LogProcessedRaw raw', LogMatchedBlock block,
                         LogScript (ME_Script me), LogNoScript (B_Name block)], p)"
            using ok Some me by (simp add: clickRecord_def Let_def logs_logs new)
          then show ?thesis by blast
        next
          case False
          then have "\<forall>st p. clickRecord lib config raw (st, p) =
              invokeHandler lib block me ev
                (logs st [LogRawInput raw, LogProcessedRaw raw', LogMatchedBlock block,
                          LogScript (ME_Script me)], p)"
            using ok Some me by (auto simp: clickRecord_def Let_def logs_logs new)
          then show ?thesis by blast
        qed
      qed
    qed
  qed
qed

lemma clickRecord_agree:
  assumes "agree s t"
  shows "agree (fst (clickRecord lib config raw (s, p))) (fst (clickRecord lib config raw (t, p))) \<and>
         snd (clickRecord lib config raw (s, p)) = snd (clickRecord lib config raw (t, p))"
proof -
  from clickRecord_shape [of lib config raw] obtain es where
    "(\<forall>st p. clickRecord lib config raw (st, p) = (logs st es, p)) \<or>
        (\<exists>block me ev. \<forall>st p. clickRecord lib config raw (st, p) =
                          invokeHandler lib block me ev (logs st es, p))"
    by blast
  then show ?thesis
  proof
    assume "\<forall>st p. clickRecord lib config raw (st, p) = (logs st es, p)"
    then show ?thesis using assms by (simp add: agree_logs)
  next
    assume "\<exists>block me ev. \<forall>st p. clickRecord lib config raw (st, p) =
                          invokeHandler lib block me ev (logs st es, p)"
    then obtain block me ev where
      "\<forall>st p. clickRecord lib config raw (st, p) = invokeHandler lib block me ev (logs st es, p)"
      by blast
    then show ?thesis
      using invokeHandler_agree [OF agree_logs [OF assms, of es es], of lib block me ev p] by simp
  qed
qed

lemma clickLoop_agree:
  "agree s t \<Longrightarrow>
     agree (fst (clickLoop lib config ls (s, p))) (fst (clickLoop lib config ls (t, p))) \<and>
     snd (clickLoop lib config ls (s, p)) = snd (clickLoop lib config ls (t, p))"
proof (induction ls arbitrary: s t p)
  case Nil
  then show ?case by simp
next
  case (Cons l ls)
  obtain s1 p1 where s1: "clickRecord lib config l (s, p) = (s1, p1)"
    by (cases "clickRecord lib config l (s, p)")
  obtain t1 q1 where t1: "clickRecord lib config l (t, p) = (t1, q1)"
    by (cases "clickRecord lib config l (t, p)")
  have "agree s1 t1" "p1 = q1"
    using clickRecord_agree [OF Cons.prems, of lib config l p] s1 t1 by simp_all
  then show ?case
    using Cons.IH [of s1 t1 p1] s1 t1 by simp
qed

lemma restoreEnv_agree: "agree s t \<Longrightarrow> agree (restoreEnv old s) (restoreEnv old t)"
  by (simp add: agree_def restoreEnv_def)

lemma fold_restoreEnv_agree: "agree s t \<Longrightarrow> agree (fold restoreEnv ps s) (fold restoreEnv ps t)"
  by (induction ps arbitrary: s t) (simp_all add: restoreEnv_agree)

subsection \<open>The first line\<close>

text \<open>
  Claim C9. The first line read from standard input is only logged. Whatever it is, a
  well-formed click record included, the dispatcher ends in the same environment, with
  the same commands run and the same output; and when it is the only line, no command is
  run and nothing but the log changes.
\<close>

theorem initial_line_never_dispatched:
  "agree (handleClickEvents lib config (l # ls) failed st)
         (handleClickEvents lib config (l' # ls) failed st) \<and>
   agree (handleClickEvents lib config [l] failed st) st"
proof -
  let ?s = "logs (logs st [LogStarting]) [LogInitialLine l]"
  let ?t = "logs (logs st [LogStarting]) [LogInitialLine l']"
  have a: "agree ?s ?t" by (simp add: agree_def logs_def)
  obtain s1 p1 where s1: "clickLoop lib config ls (?s, []) = (s1, p1)"
    by (cases "clickLoop lib config ls (?s, [])")
  obtain t1 q1 where t1: "clickLoop lib config ls (?t, []) = (t1, q1)"
    by (cases "clickLoop lib config ls (?t, [])")
  have b: "agree s1 t1" "p1 = q1"
    using clickLoop_agree [OF a, of lib config ls "[]"] s1 t1 by simp_all
  have c: "agree (if failed then logs s1 [LogReadError] else s1)
                 (if failed then logs t1 [LogReadError] else t1)"
    using b(1) by (simp add: agree_logs)
  have "agree (logs (fold restoreEnv p1 (if failed then logs s1 [LogReadError] else s1)) [LogFinished])
              (logs (fold restoreEnv p1 (if failed then logs t1 [LogReadError] else t1)) [LogFinished])"
    using c by (intro agree_logs fold_restoreEnv_agree)
  then have first: "agree (handleClickEvents lib config (l # ls) failed st)
         (handleClickEvents lib config (l' # ls) failed st)"
    using s1 t1 b(2) by (simp add: handleClickEvents_def Let_def)
  have second: "agree (handleClickEvents lib config [l] failed st) st"
    by (simp add: handleClickEvents_def Let_def agree_def logs_def)
  show ?thesis using first second by simp
qed

text \<open>A left click on \<open>vol\<close>, which has a handler for it, as the first and only line.\<close>

theorem initial_line_never_dispatched_witness:
  \<open>calls (handleClickEvents lib0 (config0 [blockA, blockB])
      [''{"name":"vol","button":1,"x":5,"y":7}''] False (initial [(''PATH'', ''/bin'')])) = []\<close>
  using initial_line_never_dispatched [of lib0 "config0 [blockA, blockB]" _ "[]" False
      "initial [(''PATH'', ''/bin'')]"]
  by (simp add: agree_def initial_def)

subsection \<open>Events that match no block or no handler\<close>

lemma findBlockByName_Some:
  "findBlockByName config name = Some block \<Longrightarrow> B_Name block = name \<and> block \<in> set (Blocks config)"
  by (auto simp: findBlockByName_def find_Some_iff)

lemma findBlockByName_None:
  "findBlockByName config name = None \<longleftrightarrow> (\<forall>block \<in> set (Blocks config). B_Name block \<noteq> name)"
  by (auto simp: findBlockByName_def find_None_iff)

lemma clickRecord_miss:
  assumes parsed: "fst (NewEventFromRaw lib raw st0) = Inr ev"
    and miss: "(\<forall>block \<in> set (Blocks config). B_Name block \<noteq> EV_Name ev) \<or>
               (\<exists>block. findBlockByName config (EV_Name ev) = Some block \<and>
                        map_of (MouseEvents block) (Button_String (Button ev)) = None)"
  shows "agree (fst (clickRecord lib config raw (st, pending))) st \<and>
         snd (clickRecord lib config raw (st, pending)) = pending"
proof -
  have n: "\<And>s. \<exists>es. NewEventFromRaw lib raw s = (Inr ev, logs s es)"
    using parsed by (auto simp: NewEventFromRaw_unfold Let_def split: option.splits)
  let ?s = "logs st [LogRawInput raw]"
  from n [of ?s] obtain es where es: "NewEventFromRaw lib raw ?s = (Inr ev, logs ?s es)"
    by blast
  from miss show ?thesis
  proof
    assume "\<forall>block \<in> set (Blocks config). B_Name block \<noteq> EV_Name ev"
    then have "findBlockByName config (EV_Name ev) = None"
      by (simp add: findBlockByName_None)
    then show ?thesis
      using es by (simp add: clickRecord_def Let_def agree_logs_iff agree_refl)
  next
    assume "\<exists>block. findBlockByName config (EV_Name ev) = Some block \<and>
                        map_of (MouseEvents block) (Button_String (Button ev)) = None"
    then show ?thesis
      using es by (auto simp: clickRecord_def Let_def agree_logs_iff agree_refl)
  qed
qed

lemma clickLoop_replicate_miss:
  assumes parsed: "fst (NewEventFromRaw lib raw st0) = Inr ev"
    and miss: "(\<forall>block \<in> set (Blocks config). B_Name block \<noteq> EV_Name ev) \<or>
               (\<exists>block. findBlockByName config (EV_Name ev) = Some block \<and>
                        map_of (MouseEvents block) (Button_String (Button ev)) = None)"
  shows "agree (fst (clickLoop lib config (replicate k raw) (st, pending))) st \<and>
         snd (clickLoop lib config (replicate k raw) (st, pending)) = pending"
proof (induction k arbitrary: st)
  case 0
  then show ?case by (simp add: agree_refl)
next
  case (Suc k)
  obtain s1 p1 where s1: "clickRecord lib config raw (st, pending) = (s1, p1)"
    by (cases "clickRecord lib config raw (st, pending)")
  have a: "agree s1 st" "p1 = pending"
    using clickRecord_miss [OF parsed miss, of st pending] s1 by simp_all
  have "agree (fst (clickLoop lib config (replicate k raw) (s1, pending))) s1"
    "snd (clickLoop lib config (replicate k raw) (s1, pending)) = pending"
    using Suc.IH [of s1] by simp_all
  then show ?case
    using a s1 by (simp add: agree_def)
qed

text \<open>
  Claim C7. A line that parses to the event \<open>ev\<close> is routed to the first block whose name
  equals the event's name. When no block has that name, or the block routed to has no
  handler under the name of the event's button, the line changes nothing but the log (no
  command is run, the environment stays, no closure is registered), and the loop goes on
  with the lines that follow. So any number \<open>k\<close> of such lines runs no command.
\<close>

theorem unrouted_click_dropped:
  assumes parsed: "fst (NewEventFromRaw lib raw st) = Inr ev"
    and miss: "(\<forall>block \<in> set (Blocks config). B_Name block \<noteq> EV_Name ev) \<or>
               (\<exists>block. findBlockByName config (EV_Name ev) = Some block \<and>
                        map_of (MouseEvents block) (Button_String (Button ev)) = None)"
  shows "\<exists>st'. clickRecord lib config raw (st, pending) = (st', pending) \<and> agree st' st \<and>
           clickLoop lib config (raw # rest) (st, pending) = clickLoop lib config rest (st', pending) \<and>
           agree (fst (clickLoop lib config (replicate k raw) (st, pending))) st \<and>
           (findBlockByName config (EV_Name ev) = None \<or>
            (\<exists>block. findBlockByName config (EV_Name ev) = Some block \<and>
                     B_Name block = EV_Name ev \<and> block \<in> set (Blocks config)))"
proof -
  obtain st' p' where r: "clickRecord lib config raw (st, pending) = (st', p')"
    by (cases "clickRecord lib config raw (st, pending)")
  have a: "agree st' st" "p' = pending"
    using clickRecord_miss [OF parsed miss, of st pending] r by simp_all
  have l: "clickLoop lib config (raw # rest) (st, pending) = clickLoop lib config rest (st', pending)"
    using r a by simp
  have k: "agree (fst (clickLoop lib config (replicate k raw) (st, pending))) st"
    using clickLoop_replicate_miss [OF parsed miss] by simp
  have f: "findBlockByName config (EV_Name ev) = None \<or>
            (\<exists>block. findBlockByName config (EV_Name ev) = Some block \<and>
                     B_Name block = EV_Name ev \<and> block \<in> set (Blocks config))"
    using findBlockByName_Some [of config "EV_Name ev"]
    by (cases "findBlockByName config (EV_Name ev)") simp_all
  show ?thesis
    using r a l k f by blast
qed

text \<open>A thousand right clicks on \<open>vol\<close>, which handles the left button only.\<close>

theorem unrouted_click_dropped_witness:
  \<open>calls (fst (clickLoop lib0 (config0 [blockA, blockB])
      (replicate 1000 ''{"name":"vol","button":3,"x":5,"y":7}'') (initial [], []))) = []\<close>
proof -
  let ?config = "config0 [blockA, blockB]"
  have p: \<open>fst (NewEventFromRaw lib0 ''{"name":"vol","button":3,"x":5,"y":7}'' (initial [])) =
      Inr (click ''vol'' 3)\<close>
    by (simp add: NewEventFromRaw_def lib0_def Unmarshal0_def isSpace0_def Let_def)
  have "findBlockByName ?config (EV_Name (click ''vol'' 3)) = Some blockB \<and>
      map_of (MouseEvents blockB) (Button_String (Button (click ''vol'' 3))) = None"
    by (simp add: findBlockByName_def click_def Button_String_def example_simps)
  then have m: "(\<forall>block \<in> set (Blocks ?config). B_Name block \<noteq> EV_Name (click ''vol'' 3)) \<or>
      (\<exists>block. findBlockByName ?config (EV_Name (click ''vol'' 3)) = Some block \<and>
         map_of (MouseEvents block) (Button_String (Button (click ''vol'' 3))) = None)"
    by blast
  from unrouted_click_dropped [OF p m, of "[]" "[]" 1000] show ?thesis
    by (auto simp: agree_def initial_def)
qed

subsection \<open>The environment between two records\<close>

text \<open>
  A handler invocation leaves the three variables set and its snapshot pending, for every
  library and every outcome of the handler.
\<close>

lemma invokeHandler_env:
  "env (fst (invokeHandler lib block me ev (st, pending))) =
     Setenv ''Y'' (Itoa lib (Y ev)) (Setenv ''X'' (Itoa lib (X ev))
       (Setenv ''BUTTON'' (Button_String (Button ev)) (env st))) \<and>
   snd (invokeHandler lib block me ev (st, pending)) = Environ (env st) # pending"
proof -
  let ?i = "if ME_Interpreter me = '''' then Interpreter block else ME_Interpreter me"
  let ?e = "Setenv ''Y'' (Itoa lib (Y ev)) (Setenv ''X'' (Itoa lib (X ev))
       (Setenv ''BUTTON'' (Button_String (Button ev)) (env st)))"
  let ?st = "logs ((logs st [LogInterpreter ?i])\<lparr>env := ?e\<rparr>)
       [LogExecutingHandler (B_Name block), LogHandlerDetails me]"
  obtain r st1 where run:
    "(if ME_Command me \<noteq> '''' then executeCommand lib (ME_Command me) ?st
      else executeScript lib ?i (ME_Script me) ?st) = (r, st1)"
    by (cases "if ME_Command me \<noteq> '''' then executeCommand lib (ME_Command me) ?st
      else executeScript lib ?i (ME_Script me) ?st")
  then have "env st1 = env ?st"
    by (auto split: if_splits dest: executeCommand_frame executeScript_frame)
  then have e: "env st1 = ?e" by (simp add: logs_def)
  have "invokeHandler lib block me ev (st, pending) =
      (case r of
         Inl err \<Rightarrow> ((logs st1 [LogHandlerError (B_Name block) err])\<lparr>stderr := stderr st1 @ [err]\<rparr>,
                      Environ (env st) # pending)
       | Inr outp \<Rightarrow> (logs st1 [LogHandlerOutput (B_Name block) outp], Environ (env st) # pending))"
    using run by (auto simp: invokeHandler_def Let_def logs_def split: if_splits sum.splits)
  then show ?thesis
    using e by (cases r) (simp_all add: logs_def)
qed

text \<open>
  Claim C3. The claim says that the prior environment is restored after each handler
  invocation, before the next record is processed. The restoring closure is deferred
  inside the loop, so it runs when \<^verbatim>\<open>handleClickEvents\<close> returns: after the one record
  below has been handled (the handler \<^verbatim>\<open>true\<close> ran with the three variables set), the
  loop is ready for the next record with \<open>BUTTON\<close>, \<open>X\<close> and \<open>Y\<close> still set and the snapshot
  still pending; the environment is back only once the whole input has been read.
\<close>

theorem click_env_restored_only_at_return:
  \<open>(case clickLoop lib0 (config0 [blockA, blockB]) [''{"name":"vol","button":1,"x":5,"y":7}'']
           (initial [(''PATH'', ''/bin'')], []) of
      (st, pending) \<Rightarrow> (env st, calls st, pending)) =
     ([(''PATH'', ''/bin''), (''BUTTON'', ''Left''), (''X'', ''5''), (''Y'', ''7'')],
      [([''true''], [(''PATH'', ''/bin''), (''BUTTON'', ''Left''), (''X'', ''5''), (''Y'', ''7'')])],
      [[''PATH=/bin'']]) \<and>
   env (handleClickEvents lib0 (config0 [blockA, blockB])
          [''['', ''{"name":"vol","button":1,"x":5,"y":7}''] False (initial [(''PATH'', ''/bin'')])) =
     [(''PATH'', ''/bin'')]\<close>
  by (simp add: handleClickEvents_def clickRecord_def invokeHandler_def NewEventFromRaw_def
      findBlockByName_def executeCommand_def cmdOutput_def Button_String_def Setenv_def
      Environ_def restoreEnv_def Cut_def Clearenv_def lib0_simps example_simps logs_def Let_def)

section \<open>The process: results\<close>

subsection \<open>The steps and the sequential functions\<close>

text \<open>
  The steps of an iteration of the loop make up \<open>tick\<close>, and the steps of the dispatcher
  up to its return make up \<^verbatim>\<open>handleClickEvents\<close>.
\<close>

lemma tickSteps_tick:
  "tickSteps lib config (AtTick i first, st) =
     (case tick lib config (first, st) of (f, s) \<Rightarrow> (AtTick (Suc i) f, s))"
proof -
  obtain r s1 where run: "runBlocks lib config st = (r, s1)"
    by (cases "runBlocks lib config st")
  show ?thesis
    using run by (cases r; cases first) (simp_all add: tickSteps_def tick_def ticker_C_def)
qed

lemma main_loop_tickSteps:
  "((tickSteps lib config) ^^ n) (AtTick i first, st) =
     (case main_loop lib config n i (first, st) of (left, f, s) \<Rightarrow> (AtTick (i + n) f, s))"
proof (induction n arbitrary: i first st)
  case 0
  then show ?case by simp
next
  case (Suc n)
  obtain f1 s1 where t: "tick lib config (first, st) = (f1, s1)"
    by (cases "tick lib config (first, st)")
  have "((tickSteps lib config) ^^ Suc n) (AtTick i first, st) =
      ((tickSteps lib config) ^^ n) (AtTick (Suc i) f1, s1)"
    using t by (simp add: funpow_swap1 tickSteps_tick)
  then show ?case
    using Suc.IH [of "Suc i" f1 s1] t by (simp add: ticker_C_def)
qed

lemma dispatcher_loop_steps:
  "((dispatcherMove lib config failed) ^^ length rest) (AtRecord rest pending, st) =
     (case clickLoop lib config rest (st, pending) of (s, p) \<Rightarrow> (AtRecord [] p, s))"
proof (induction rest arbitrary: pending st)
  case Nil
  then show ?case by simp
next
  case (Cons raw rest)
  obtain s1 p1 where c: "clickRecord lib config raw (st, pending) = (s1, p1)"
    by (cases "clickRecord lib config raw (st, pending)")
  have "((dispatcherMove lib config failed) ^^ length (raw # rest)) (AtRecord (raw # rest) pending, st) =
      ((dispatcherMove lib config failed) ^^ length rest) (AtRecord rest p1, s1)"
    using c by (simp add: funpow_swap1 dispatcherMove_def)
  then show ?case
    using Cons.IH [of p1 s1] c by simp
qed

lemma dispatcher_steps_handleClickEvents:
  "((dispatcherMove lib config failed) ^^ Suc (Suc (length (tl lines)))) (AtScan lines, st) =
     (AtTriggered, handleClickEvents lib config lines failed st)"
proof -
  let ?f = "dispatcherMove lib config failed"
  let ?st = "case lines of [] \<Rightarrow> logs st [LogStarting]
             | l # ls \<Rightarrow> logs (logs st [LogStarting]) [LogInitialLine l]"
  have 1: "?f (AtScan lines, st) = (AtRecord (tl lines) [], ?st)"
    by (cases lines) (simp_all add: dispatcherMove_def)
  obtain s p where c: "clickLoop lib config (tl lines) (?st, []) = (s, p)"
    by (cases "clickLoop lib config (tl lines) (?st, [])")
  have 2: "(?f ^^ length (tl lines)) (AtRecord (tl lines) [], ?st) = (AtRecord [] p, s)"
    using dispatcher_loop_steps [where rest = "tl lines" and pending = "[]" and st = ?st] c by simp
  have 3: "?f (AtRecord [] p, s) =
      (AtTriggered, logs (fold restoreEnv p (if failed then logs s [LogReadError] else s)) [LogFinished])"
    by (simp add: dispatcherMove_def)
  have "(?f ^^ Suc (Suc (length (tl lines)))) (AtScan lines, st) =
      ?f ((?f ^^ length (tl lines)) (?f (AtScan lines, st)))"
    by (simp add: funpow_swap1)
  also have "\<dots> = (AtTriggered,
      logs (fold restoreEnv p (if failed then logs s [LogReadError] else s)) [LogFinished])"
    using 1 2 3 by simp
  also have "\<dots> = (AtTriggered, handleClickEvents lib config lines failed st)"
    using c by (cases lines) (simp_all add: handleClickEvents_def Let_def)
  finally show ?thesis .
qed

subsection \<open>What the steps write\<close>















end
